theory Spec2Isabelle
  imports Main
begin

section \<open>Strings\<close>

text \<open>
  A Python \<open>str\<close> is represented by its UTF-8 encoding, one \<open>char\<close> per byte, so that
  \<open>len(s.encode('utf-8'))\<close> is \<open>length s\<close>. Every character the code searches for,
  replaces or splits on is ASCII, and an ASCII byte never occurs inside a multi-byte UTF-8
  sequence, so membership, replacement, prefix tests and splitting on the bytes agree with
  the same operations on the code points. Strings that cannot be encoded (lone surrogates)
  have no representation; they cannot come out of a file opened with \<open>encoding='utf-8'\<close>.
\<close>

definition startswith :: "string \<Rightarrow> string \<Rightarrow> bool" where
  \<comment> \<open>\<open>s.startswith(p)\<close>\<close>
  "startswith s p = (take (length p) s = p)"

definition replace :: "string \<Rightarrow> char \<Rightarrow> char \<Rightarrow> string" where
  \<comment> \<open>\<open>s.replace(old, new)\<close> for one-character \<open>old\<close> and \<open>new\<close>\<close>
  "replace s old new = map (\<lambda>c. if c = old then new else c) s"

fun split :: "string \<Rightarrow> char \<Rightarrow> string list" where
  \<comment> \<open>\<open>s.split(sep)\<close> for a one-character separator: the empty string gives one empty segment\<close>
  "split [] sep = [[]]"
| "split (c # cs) sep =
     (if c = sep then [] # split cs sep
      else (c # hd (split cs sep)) # tl (split cs sep))"

section \<open>Topic validation and sanitization (generator 1)\<close>

definition MQTT_TOPIC_EXCLUSION_CHARS :: "char list" where
  "MQTT_TOPIC_EXCLUSION_CHARS =
     [CHR ''+'', CHR ''#'', CHR ''*'', CHR ''>'', CHR ''$'', CHR ''!'']"

definition allowed_dollar_prefix :: "string \<Rightarrow> bool" where
  \<comment> \<open>the three \<open>startswith\<close> tests shared by the validator and the sanitizer\<close>
  "allowed_dollar_prefix s =
     (startswith s ''$SYS/'' \<or> startswith s ''$share/'' \<or> startswith s ''$noexport/'')"

definition validate_mqtt_topic :: "string \<Rightarrow> bool" where
  "validate_mqtt_topic topic_name =
     (if list_ex (\<lambda>ch. ch \<in> set topic_name) MQTT_TOPIC_EXCLUSION_CHARS then False
      else if startswith topic_name ''$'' \<and> \<not> allowed_dollar_prefix topic_name then False
      else if length topic_name > 250 then False
      else if length (split topic_name (CHR ''/'')) > 128 then False
      else True)"

definition sanitize_mqtt_topic :: "string \<Rightarrow> string" where
  "sanitize_mqtt_topic topic_name =
     (let sanitized_name = fold (\<lambda>ch s. replace s ch (CHR ''_'')) MQTT_TOPIC_EXCLUSION_CHARS topic_name
      in if startswith sanitized_name ''$'' \<and> \<not> allowed_dollar_prefix sanitized_name
         then ''_'' @ drop 1 sanitized_name
         else sanitized_name)"

section \<open>Input rows, log events and the generated document\<close>

text \<open>
  A row is the dictionary that \<open>csv.DictReader\<close> yields, typed \<open>Dict[str, str]\<close> in the
  source: a map from column names to string values. Parsing the file is the library's work;
  the generators are modelled on the rows the reader yields.
\<close>

type_synonym row = "string \<rightharpoonup> string"

datatype read_error = CsvError | OtherError

record env =
  csv_exists :: bool                 \<comment> \<open>\<open>os.path.exists(self.csv_file_path)\<close>\<close>
  csv_rows :: "row list"             \<comment> \<open>the rows the reader yields\<close>
  csv_end :: "read_error option"     \<comment> \<open>the exception that ends the reading, if any\<close>
  now :: string                      \<comment> \<open>\<open>datetime.datetime.now()\<close>, as the generator formats it\<close>
  write_ok :: bool                   \<comment> \<open>whether opening and writing the output file succeeds\<close>

datatype log_event =
    ErrorCsvNotFound string
  | InfoReading string
  | WarningSanitized string string
  | WarningSkippedRow "string list" row
  | ErrorReading read_error
  | WarningNoValidInputs
  | InfoProcessed nat nat
  | InfoWriting string
  | InfoWritten string
  | ErrorWriting

text \<open>
  The document is the tree of \<open>tomlkit\<close> items in the order the generator adds them; its
  rendering by \<open>doc.as_string()\<close> is the library's. \<open>TCommented v c\<close> records a
  \<open>.comment(c)\<close> call chained to the \<open>add\<close> of the value \<open>v\<close>.
\<close>

datatype toml =
    TString string
  | TInteger int
  | TBoolean bool
  | TArray "toml list"
  | TTable "(string \<times> toml) list"
  | TAoT "toml list"
  | TCommented toml string

datatype doc_item = Comment string | Nl | Section string toml

type_synonym document = "doc_item list"

record 'g outcome =
  gen :: 'g                          \<comment> \<open>the generator object after the call\<close>
  logged :: "log_event list"
  written :: "document option"       \<comment> \<open>\<open>None\<close>: the output file was not written\<close>

datatype py_error = ValueError string

record generator =
  csv_file_path :: string
  output_file_path :: string
  mqtt_broker :: string
  influxdb_url :: string

definition rule_line :: string where
  "rule_line = ''###############################################################################''"

definition AGENT_SETTINGS :: string where
  "AGENT_SETTINGS = ''#                            AGENT SETTINGS                                   #''"

definition INPUT_PLUGINS :: string where
  "INPUT_PLUGINS = ''#                            INPUT PLUGINS                                    #''"

definition OUTPUT_PLUGINS :: string where
  "OUTPUT_PLUGINS = ''#                            OUTPUT PLUGINS                                   #''"

definition agent_table :: "bool \<Rightarrow> toml" where
  \<comment> \<open>the \<open>agent\<close> table of both generators; they differ in \<open>omit_hostname\<close> only\<close>
  "agent_table omit_hostname = TTable
     [(''interval'', TString ''10s''),
      (''round_interval'', TBoolean True),
      (''metric_batch_size'', TInteger 1000),
      (''metric_buffer_limit'', TInteger 10000),
      (''collection_jitter'', TString ''0s''),
      (''flush_interval'', TString ''10s''),
      (''flush_jitter'', TString ''0s''),
      (''precision'', TString []),
      (''hostname'', TString []),
      (''omit_hostname'', TBoolean omit_hostname)]"

definition outputs_table :: "string \<Rightarrow> string \<Rightarrow> toml" where
  \<comment> \<open>the \<open>outputs\<close> table of both generators; they differ in the bucket only\<close>
  "outputs_table url bucket = TTable
     [(''influxdb_v2'', TAoT [TTable
        [(''urls'', TCommented (TArray [TString url]) ''Replace with your InfluxDB URL''),
         (''token'', TCommented (TString ''$DOCKER_INFLUXDB_INIT_ADMIN_TOKEN'')
             ''Replace with your InfluxDB Token or env var''),
         (''organization'', TCommented (TString ''$DOCKER_INFLUXDB_INIT_ORG'')
             ''Replace with your InfluxDB Org or env var''),
         (''bucket'', TString bucket)]])]"

definition write_config :: "string \<Rightarrow> bool \<Rightarrow> document \<Rightarrow> log_event list \<times> document option" where
  \<comment> \<open>the final \<open>try\<close> block of both generators\<close>
  "write_config output_path ok doc =
     (if ok then ([InfoWriting output_path, InfoWritten output_path], Some doc)
      else ([InfoWriting output_path, ErrorWriting], None))"

section \<open>Generator 1: TelegrafMQTTConfigGenerator\<close>

record generator1 = generator +
  total_nodes_processed :: nat
  topics_sanitized :: nat

record node =
  mqtt_input_name :: string
  mqtt_topic :: string

definition TelegrafMQTTConfigGenerator_init ::
  "string \<Rightarrow> string \<Rightarrow> string option \<Rightarrow> string option \<Rightarrow> py_error + generator1" where
  \<comment> \<open>\<open>__init__\<close>; \<open>None\<close> for an argument that is not supplied\<close>
  "TelegrafMQTTConfigGenerator_init csv_path output_path broker url =
     (if csv_path = [] then Inl (ValueError ''CSV file path cannot be empty.'')
      else if output_path = [] then Inl (ValueError ''Output file path cannot be empty.'')
      else Inr \<lparr>csv_file_path = csv_path, output_file_path = output_path,
                mqtt_broker = (case broker of None \<Rightarrow> ''tcp://mosquitto:1883'' | Some b \<Rightarrow> b),
                influxdb_url = (case url of None \<Rightarrow> ''http://influxdb:8086'' | Some u \<Rightarrow> u),
                total_nodes_processed = 0, topics_sanitized = 0\<rparr>)"

fun read_node :: "row \<Rightarrow> node list \<times> generator1 \<times> log_event list
                    \<Rightarrow> node list \<times> generator1 \<times> log_event list" where
  \<comment> \<open>the body of the loop over the reader's rows\<close>
  "read_node row (nodes, self, lg) =
     (case row ''MQTTInputName'' of
        Some input_name \<Rightarrow>
          (let topic = ''telegraf/opcua/'' @ input_name in
           if \<not> validate_mqtt_topic topic then
             (let original_topic = topic;
                  topic' = sanitize_mqtt_topic topic;
                  self' = self\<lparr>topics_sanitized := topics_sanitized self + 1\<rparr>
              in (nodes @ [\<lparr>mqtt_input_name = input_name, mqtt_topic = topic'\<rparr>],
                  self'\<lparr>total_nodes_processed := total_nodes_processed self' + 1\<rparr>,
                  lg @ [WarningSanitized original_topic topic']))
           else (nodes @ [\<lparr>mqtt_input_name = input_name, mqtt_topic = topic\<rparr>],
                 self\<lparr>total_nodes_processed := total_nodes_processed self + 1\<rparr>,
                 lg))
      | None \<Rightarrow>
          (nodes, self,
           lg @ [WarningSkippedRow (filter (\<lambda>key. row key = None) [''MQTTInputName'']) row]))"

definition mqtt_consumer1 :: "string \<Rightarrow> node \<Rightarrow> toml" where
  "mqtt_consumer1 broker nd = TTable
     [(''servers'', TArray [TString broker]),
      (''topics'', TArray [TString (mqtt_topic nd)]),
      (''name_override'', TString ''opcua''),
      (''topic_tag'', TString ''mqtt_topic''),
      (''data_format'', TString ''value''),
      (''data_type'', TString ''float'')]"

definition document1 :: "generator1 \<Rightarrow> string \<Rightarrow> node list \<Rightarrow> document" where
  "document1 self timestamp nodes =
     [Comment (''# Generated at '' @ timestamp),
      Comment ''# Telegraf Configuration for MQTT Inputs'',
      Comment ''# Generated from CSV file'',
      Nl,
      Comment rule_line, Comment AGENT_SETTINGS, Comment rule_line,
      Section ''agent'' (agent_table True),
      Nl,
      Comment rule_line, Comment INPUT_PLUGINS, Comment rule_line,
      Nl,
      Comment ''# Read data from MQTT topics'',
      Section ''inputs'' (TTable [(''mqtt_consumer'', TAoT (map (mqtt_consumer1 (mqtt_broker self)) nodes))]),
      Nl,
      Comment rule_line, Comment OUTPUT_PLUGINS, Comment rule_line,
      Nl,
      Comment ''# --- InfluxDB v2 Output ---'',
      Section ''outputs'' (outputs_table (influxdb_url self) ''mqttinput'')]"

definition generate_telegraf_config1 :: "generator1 \<Rightarrow> env \<Rightarrow> generator1 outcome" where
  "generate_telegraf_config1 self e =
     (if \<not> csv_exists e then
        \<lparr>gen = self, logged = [ErrorCsvNotFound (csv_file_path self)], written = None\<rparr>
      else
        (case fold read_node (csv_rows e) ([], self, [InfoReading (csv_file_path self)]) of
           (nodes, self', lg) \<Rightarrow>
             (case csv_end e of
                Some err \<Rightarrow> \<lparr>gen = self', logged = lg @ [ErrorReading err], written = None\<rparr>
              | None \<Rightarrow>
                  if nodes = [] then
                    \<lparr>gen = self', logged = lg @ [WarningNoValidInputs], written = None\<rparr>
                  else
                    (case write_config (output_file_path self') (write_ok e)
                            (document1 self' (now e) nodes) of
                       (wl, w) \<Rightarrow> \<lparr>gen = self', logged = lg @ wl, written = w\<rparr>))))"

section \<open>Generator 2: TelegrafMqttJsonConfigGenerator\<close>

record generator2 = generator +
  total_rows_processed :: nat
  total_topics_configured :: nat

record field_map =
  path :: string
  rename :: string

definition TelegrafMqttJsonConfigGenerator_init ::
  "string \<Rightarrow> string \<Rightarrow> string option \<Rightarrow> string option \<Rightarrow> py_error + generator2" where
  "TelegrafMqttJsonConfigGenerator_init csv_path output_path broker url =
     (if csv_path = [] then Inl (ValueError ''CSV file path cannot be empty.'')
      else if output_path = [] then Inl (ValueError ''Output file path cannot be empty.'')
      else Inr \<lparr>csv_file_path = csv_path, output_file_path = output_path,
                mqtt_broker = (case broker of None \<Rightarrow> ''tcp://mosquitto:1883'' | Some b \<Rightarrow> b),
                influxdb_url = (case url of None \<Rightarrow> ''http://influxdb:8086'' | Some u \<Rightarrow> u),
                total_rows_processed = 0, total_topics_configured = 0\<rparr>)"

definition REQUIRED_COLUMNS :: "string list" where
  "REQUIRED_COLUMNS = [''MQTTInputName'', ''JsonPath'', ''FieldName'']"

definition present :: "row \<Rightarrow> string \<Rightarrow> bool" where
  \<comment> \<open>\<open>key in row and row[key]\<close>: the column is there and its value is not empty\<close>
  "present row key = (case row key of None \<Rightarrow> False | Some v \<Rightarrow> v \<noteq> [])"

fun append_to :: "(string \<times> 'a list) list \<Rightarrow> string \<Rightarrow> 'a \<Rightarrow> (string \<times> 'a list) list" where
  \<comment> \<open>\<open>topics_data[key].append(v)\<close> on a \<open>defaultdict(list)\<close>, which keeps its keys in
      insertion order\<close>
  "append_to [] key v = [(key, [v])]"
| "append_to ((k, vs) # rest) key v =
     (if k = key then (k, vs @ [v]) # rest else (k, vs) # append_to rest key v)"

fun read_mapping :: "row \<Rightarrow> (string \<times> field_map list) list \<times> generator2 \<times> log_event list
                       \<Rightarrow> (string \<times> field_map list) list \<times> generator2 \<times> log_event list" where
  \<comment> \<open>the body of the loop over the reader's rows\<close>
  "read_mapping row (topics_data, self, lg) =
     (if list_all (present row) REQUIRED_COLUMNS then
        (case (row ''MQTTInputName'', row ''JsonPath'', row ''FieldName'') of
           (Some input_name, Some json_path, Some field_name) \<Rightarrow>
             (append_to topics_data input_name \<lparr>path = json_path, rename = field_name\<rparr>,
              self\<lparr>total_rows_processed := total_rows_processed self + 1\<rparr>,
              lg)
         | _ \<Rightarrow> (topics_data, self, lg \<comment> \<open>not reached: the three columns are present\<close>))
      else
        (topics_data, self,
         lg @ [WarningSkippedRow (filter (\<lambda>key. \<not> present row key) REQUIRED_COLUMNS) row]))"

definition mqtt_consumer2 :: "string \<Rightarrow> string \<times> field_map list \<Rightarrow> toml" where
  "mqtt_consumer2 broker item =
     (case item of (topic_name, field_maps) \<Rightarrow> TTable
        [(''servers'', TArray [TString broker]),
         (''topics'', TArray [TString topic_name]),
         (''data_format'', TString ''json_v2''),
         (''json_v2'', TArray [TTable
            [(''measurement_name'', TString ''mqtt''),
             (''field'', TAoT (map (\<lambda>fm. TTable
                [(''path'', TString (path fm)),
                 (''rename'', TString (rename fm)),
                 (''type'', TString ''float'')]) field_maps))]]),
         (''tags'', TTable [(''MQTTInputName'', TString topic_name)])])"

definition document2 :: "generator2 \<Rightarrow> string \<Rightarrow> (string \<times> field_map list) list \<Rightarrow> document" where
  "document2 self timestamp topics_data =
     [Comment (''Generated at '' @ timestamp),
      Comment ''Telegraf Configuration for MQTT to InfluxDB with JSON Parsing'',
      Comment ''Generated from CSV file'',
      Nl,
      Comment rule_line, Comment AGENT_SETTINGS, Comment rule_line,
      Section ''agent'' (agent_table False),
      Nl,
      Comment rule_line, Comment INPUT_PLUGINS, Comment rule_line,
      Nl,
      Comment ''# Read and parse JSON data from MQTT topics'']
     @ concat (map (\<lambda>item. [Nl, Comment (''# Configuration for '' @ fst item @ '' topic'')]) topics_data)
     @ [Section ''inputs'' (TTable [(''mqtt_consumer'', TAoT (map (mqtt_consumer2 (mqtt_broker self)) topics_data))]),
      Nl,
      Comment rule_line, Comment OUTPUT_PLUGINS, Comment rule_line,
      Nl,
      Comment ''# --- InfluxDB v2 Output ---'',
      Section ''outputs'' (outputs_table (influxdb_url self) ''jsontest'')]"

definition generate_telegraf_config2 :: "generator2 \<Rightarrow> env \<Rightarrow> generator2 outcome" where
  "generate_telegraf_config2 self e =
     (if \<not> csv_exists e then
        \<lparr>gen = self, logged = [ErrorCsvNotFound (csv_file_path self)], written = None\<rparr>
      else
        (case fold read_mapping (csv_rows e) ([], self, [InfoReading (csv_file_path self)]) of
           (topics_data, self', lg) \<Rightarrow>
             (case csv_end e of
                Some err \<Rightarrow> \<lparr>gen = self', logged = lg @ [ErrorReading err], written = None\<rparr>
              | None \<Rightarrow>
                  (let self'' = self'\<lparr>total_topics_configured := length topics_data\<rparr>;
                       lg' = lg @ [InfoProcessed (total_rows_processed self'')
                                                 (total_topics_configured self'')]
                   in case write_config (output_file_path self'') (write_ok e)
                             (document2 self'' (now e) topics_data) of
                        (wl, w) \<Rightarrow> \<lparr>gen = self'', logged = lg' @ wl, written = w\<rparr>))))"

section \<open>Reading topics back from a document\<close>

definition document_consumers :: "document \<Rightarrow> toml list" where
  \<comment> \<open>the \<open>[[inputs.mqtt_consumer]]\<close> sub-blocks of a document, in order\<close>
  "document_consumers doc = concat (map (\<lambda>item.
       case item of
         Section name (TTable entries) \<Rightarrow>
           (if name = ''inputs'' then
              (case map_of entries ''mqtt_consumer'' of Some (TAoT blocks) \<Rightarrow> blocks | _ \<Rightarrow> [])
            else [])
       | _ \<Rightarrow> []) doc)"

definition consumer_topics :: "toml \<Rightarrow> string list" where
  \<comment> \<open>the strings of the \<open>topics\<close> array of one sub-block\<close>
  "consumer_topics block =
     (case block of
        TTable entries \<Rightarrow>
          (case map_of entries ''topics'' of
             Some (TArray vs) \<Rightarrow> concat (map (\<lambda>v. case v of TString s \<Rightarrow> [s] | _ \<Rightarrow> []) vs)
           | _ \<Rightarrow> [])
      | _ \<Rightarrow> [])"

definition document_topics :: "document \<Rightarrow> string list" where
  "document_topics doc = concat (map consumer_topics (document_consumers doc))"

section \<open>Notions of the specification\<close>

text \<open>
  The definitions of this section are not translations of source functions: they state, in
  the words of the specification, what the source functions above are compared with.
\<close>

definition sanitize_spec :: "string \<Rightarrow> string" where
  \<comment> \<open>the six replacements in the order \<open>+ # * > $ !\<close>, then the fix of a leading \<open>$\<close>\<close>
  "sanitize_spec t =
     (let r1 = replace t (CHR ''+'') (CHR ''_'');
          r2 = replace r1 (CHR ''#'') (CHR ''_'');
          r3 = replace r2 (CHR ''*'') (CHR ''_'');
          r4 = replace r3 (CHR ''>'') (CHR ''_'');
          r5 = replace r4 (CHR ''$'') (CHR ''_'');
          r6 = replace r5 (CHR ''!'') (CHR ''_'')
      in if startswith r6 ''$'' \<and> \<not> startswith r6 ''$SYS/'' \<and> \<not> startswith r6 ''$share/''
            \<and> \<not> startswith r6 ''$noexport/''
         then CHR ''_'' # tl r6 else r6)"

definition derive_topic :: "string \<Rightarrow> string" where
  \<comment> \<open>the caller contract: validate the candidate first, sanitize it only when that fails\<close>
  "derive_topic input_name =
     (let candidate = ''telegraf/opcua/'' @ input_name
      in if validate_mqtt_topic candidate then candidate else sanitize_mqtt_topic candidate)"

definition input_names :: "row list \<Rightarrow> string list" where
  \<comment> \<open>the \<open>MQTTInputName\<close> values of the rows that have the column, in row order\<close>
  "input_names rows = List.map_filter (\<lambda>row. row ''MQTTInputName'') rows"

definition missing_columns :: "row \<Rightarrow> string list" where
  \<comment> \<open>the required columns of generator 2 that a row lacks or leaves empty\<close>
  "missing_columns row =
     filter (\<lambda>key. row key = None \<or> row key = Some [])
       [''MQTTInputName'', ''JsonPath'', ''FieldName'']"

definition valid_mappings :: "row list \<Rightarrow> (string \<times> field_map) list" where
  \<comment> \<open>topic key and field mapping of every row with no missing column, in row order\<close>
  "valid_mappings rows = List.map_filter (\<lambda>row.
       case (row ''MQTTInputName'', row ''JsonPath'', row ''FieldName'') of
         (Some input_name, Some json_path, Some field_name) \<Rightarrow>
           if input_name \<noteq> [] \<and> json_path \<noteq> [] \<and> field_name \<noteq> []
           then Some (input_name, \<lparr>path = json_path, rename = field_name\<rparr>) else None
       | _ \<Rightarrow> None) rows"

definition first_seen :: "'a list \<Rightarrow> 'a list" where
  \<comment> \<open>the distinct elements of a list, each at the place of its first occurrence\<close>
  "first_seen xs = rev (remdups (rev xs))"

definition grouped :: "(string \<times> 'a) list \<Rightarrow> (string \<times> 'a list) list" where
  \<comment> \<open>one group per key, keys in first-seen order, the values of a key in input order\<close>
  "grouped kvs =
     map (\<lambda>k. (k, map snd (filter (\<lambda>kv. fst kv = k) kvs))) (first_seen (map fst kvs))"

definition skipped_rows :: "log_event list \<Rightarrow> (string list \<times> row) list" where
  \<comment> \<open>the rows a log reports as skipped, each with the columns it names\<close>
  "skipped_rows lg = concat (map (\<lambda>ev.
       case ev of WarningSkippedRow keys row \<Rightarrow> [(keys, row)] | _ \<Rightarrow> []) lg)"

subsection \<open>Example inputs\<close>

definition example_generator1 :: generator1 where
  "example_generator1 =
     \<lparr>csv_file_path = ''nodes.csv'', output_file_path = ''telegraf.conf'',
      mqtt_broker = ''tcp://mosquitto:1883'', influxdb_url = ''http://influxdb:8086'',
      total_nodes_processed = 0, topics_sanitized = 0\<rparr>"

definition example_generator2 :: generator2 where
  "example_generator2 =
     \<lparr>csv_file_path = ''mappings.csv'', output_file_path = ''telegraf.conf'',
      mqtt_broker = ''tcp://mosquitto:1883'', influxdb_url = ''http://influxdb:8086'',
      total_rows_processed = 0, total_topics_configured = 0\<rparr>"

definition example_env :: "row list \<Rightarrow> env" where
  \<comment> \<open>a run in which the file exists, is read to its end and the output can be written\<close>
  "example_env rows =
     \<lparr>csv_exists = True, csv_rows = rows, csv_end = None,
      now = ''2025-01-01 00:00:00'', write_ok = True\<rparr>"

definition tank_row :: row where
  "tank_row = [''MQTTInputName'' \<mapsto> ''Tank#1'']"

definition long_row :: row where
  "long_row = [''MQTTInputName'' \<mapsto> replicate 240 (CHR ''a'')]"

definition deep_row :: row where
  "deep_row = [''MQTTInputName'' \<mapsto> replicate 126 (CHR ''/'')]"

definition line1_rows :: "row list" where
  "line1_rows =
     [[''MQTTInputName'' \<mapsto> ''Line1'', ''JsonPath'' \<mapsto> ''cooler.temperature'',
       ''FieldName'' \<mapsto> ''temp_c''],
      [''MQTTInputName'' \<mapsto> ''Line1'', ''JsonPath'' \<mapsto> ''heater.temperature'',
       ''FieldName'' \<mapsto> ''temp_h'']]"

definition no_field_name_row :: row where
  "no_field_name_row = [''MQTTInputName'' \<mapsto> ''Line1'', ''JsonPath'' \<mapsto> ''cooler.temperature'']"

definition plus_row :: row where
  "plus_row = [''MQTTInputName'' \<mapsto> ''plant+1'', ''JsonPath'' \<mapsto> ''Volume'',
               ''FieldName'' \<mapsto> ''volume'']"

definition other_column_row :: row where
  "other_column_row = [''NodeId'' \<mapsto> ''ns=2;i=5'']"

section \<open>Properties of the string functions\<close>

lemma replace_pass_map:
  "fold (\<lambda>ch s. replace s ch (CHR ''_'')) MQTT_TOPIC_EXCLUSION_CHARS t =
   map (\<lambda>c. if c \<in> set MQTT_TOPIC_EXCLUSION_CHARS then CHR ''_'' else c) t"
  by (simp add: MQTT_TOPIC_EXCLUSION_CHARS_def replace_def)

lemma replace_pass_no_dollar:
  "\<not> startswith (map (\<lambda>c. if c \<in> set MQTT_TOPIC_EXCLUSION_CHARS then CHR ''_'' else c) t) ''$''"
  by (cases t) (simp_all add: startswith_def MQTT_TOPIC_EXCLUSION_CHARS_def)

lemma sanitize_map:
  "sanitize_mqtt_topic t = map (\<lambda>c. if c \<in> set MQTT_TOPIC_EXCLUSION_CHARS then CHR ''_'' else c) t"
  unfolding sanitize_mqtt_topic_def replace_pass_map Let_def
  using replace_pass_no_dollar [of t] by simp

lemma length_split: "length (split s sep) = Suc (length (filter (\<lambda>c. c = sep) s))"
  by (induction s) simp_all

lemma validate_iff:
  "validate_mqtt_topic t \<longleftrightarrow>
     (\<forall>ch \<in> set MQTT_TOPIC_EXCLUSION_CHARS. ch \<notin> set t) \<and> length t \<le> 250
      \<and> length (split t (CHR ''/'')) \<le> 128"
proof -
  have "startswith t ''$'' \<Longrightarrow> CHR ''$'' \<in> set t"
    by (cases t) (simp_all add: startswith_def)
  then show ?thesis
    unfolding validate_mqtt_topic_def list_ex_iff
    by (auto simp: MQTT_TOPIC_EXCLUSION_CHARS_def)
qed

lemma sanitize_clean: "ch \<in> set MQTT_TOPIC_EXCLUSION_CHARS \<Longrightarrow> ch \<notin> set (sanitize_mqtt_topic t)"
  by (auto simp: sanitize_map MQTT_TOPIC_EXCLUSION_CHARS_def)

lemma derive_topic_clean:
  "ch \<in> set MQTT_TOPIC_EXCLUSION_CHARS \<Longrightarrow> ch \<notin> set (derive_topic n)"
  unfolding derive_topic_def Let_def
  using sanitize_clean [of ch] validate_iff by auto

subsection \<open>The row loop of generator 1\<close>

lemma input_names_Cons:
  "input_names (row # rows) =
     (case row ''MQTTInputName'' of None \<Rightarrow> input_names rows | Some n \<Rightarrow> n # input_names rows)"
  by (simp add: input_names_def List.map_filter_simps split: option.split)

lemma input_names_Nil: "input_names [] = []"
  by (simp add: input_names_def List.map_filter_simps)

lemma read_nodes_fst:
  "fst (fold read_node rows (nodes, self, lg)) =
     nodes @ map (\<lambda>n. \<lparr>mqtt_input_name = n, mqtt_topic = derive_topic n\<rparr>) (input_names rows)"
proof (induction rows arbitrary: nodes self lg)
  case Nil
  show ?case by (simp add: input_names_Nil)
next
  case (Cons row rows)
  show ?case
  proof (cases "row ''MQTTInputName''")
    case None
    then show ?thesis using Cons.IH by (simp add: input_names_Cons)
  next
    case (Some n)
    then show ?thesis using Cons.IH
      by (simp add: input_names_Cons derive_topic_def Let_def)
  qed
qed

lemma read_nodes_self:
  "fst (snd (fold read_node rows (nodes, self, lg))) =
     self\<lparr>total_nodes_processed := total_nodes_processed self + length (input_names rows),
          topics_sanitized := topics_sanitized self
            + length (filter (\<lambda>n. \<not> validate_mqtt_topic (''telegraf/opcua/'' @ n)) (input_names rows))\<rparr>"
proof (induction rows arbitrary: nodes self lg)
  case Nil
  show ?case by (simp add: input_names_Nil)
next
  case (Cons row rows)
  show ?case
  proof (cases "row ''MQTTInputName''")
    case None
    then show ?thesis using Cons.IH by (simp add: input_names_Cons)
  next
    case (Some n)
    then show ?thesis using Cons.IH
      by (simp add: input_names_Cons Let_def)
  qed
qed

lemma read_nodes_skipped:
  "skipped_rows (snd (snd (fold read_node rows (nodes, self, lg)))) =
     skipped_rows lg @ map (\<lambda>row. ([''MQTTInputName''], row)) (filter (\<lambda>row. row ''MQTTInputName'' = None) rows)"
proof (induction rows arbitrary: nodes self lg)
  case Nil
  show ?case by simp
next
  case (Cons row rows)
  show ?case
  proof (cases "row ''MQTTInputName''")
    case None
    then show ?thesis using Cons.IH by (simp add: skipped_rows_def)
  next
    case (Some n)
    then show ?thesis using Cons.IH
      by (simp add: Let_def skipped_rows_def)
  qed
qed

lemma input_names_filter:
  "input_names (filter (\<lambda>row. row ''MQTTInputName'' \<noteq> None) rows) = input_names rows"
  by (induction rows) (auto simp: input_names_Cons input_names_Nil)

lemma document1_topics:
  "document_topics (document1 self ts nodes) = map mqtt_topic nodes"
  by (induction nodes)
     (simp_all add: document1_def document_topics_def document_consumers_def
        consumer_topics_def mqtt_consumer1_def outputs_table_def agent_table_def)

subsection \<open>The row loop of generator 2\<close>

lemma present_iff: "present row key \<longleftrightarrow> \<not> (row key = None \<or> row key = Some [])"
  by (simp add: present_def split: option.split)

lemma valid_iff_missing: "list_all (present row) REQUIRED_COLUMNS \<longleftrightarrow> missing_columns row = []"
  by (simp add: REQUIRED_COLUMNS_def missing_columns_def present_iff)

lemma missing_columns_eq:
  "filter (\<lambda>key. \<not> present row key) REQUIRED_COLUMNS = missing_columns row"
  by (simp add: REQUIRED_COLUMNS_def missing_columns_def present_iff)

lemma valid_mappings_Nil: "valid_mappings [] = []"
  by (simp add: valid_mappings_def List.map_filter_simps)

lemma valid_mappings_Cons_invalid:
  "missing_columns row \<noteq> [] \<Longrightarrow> valid_mappings (row # rows) = valid_mappings rows"
  by (auto simp: valid_mappings_def List.map_filter_simps missing_columns_def
      split: option.splits if_splits)

lemma valid_mappings_Cons_valid:
  "missing_columns row = [] \<Longrightarrow> \<exists>n p f. row ''MQTTInputName'' = Some n \<and> row ''JsonPath'' = Some p
      \<and> row ''FieldName'' = Some f
      \<and> valid_mappings (row # rows) = (n, \<lparr>path = p, rename = f\<rparr>) # valid_mappings rows"
  by (auto simp: valid_mappings_def List.map_filter_simps missing_columns_def
      split: option.splits if_splits)

lemma read_mappings_fst:
  "fst (fold read_mapping rows (td, self, lg)) =
     fold (\<lambda>kv acc. append_to acc (fst kv) (snd kv)) (valid_mappings rows) td"
proof (induction rows arbitrary: td self lg)
  case Nil
  show ?case by (simp add: valid_mappings_Nil)
next
  case (Cons row rows)
  show ?case
  proof (cases "missing_columns row = []")
    case True
    from valid_mappings_Cons_valid [OF True, of rows] obtain n p f where
      "row ''MQTTInputName'' = Some n" "row ''JsonPath'' = Some p" "row ''FieldName'' = Some f"
      "valid_mappings (row # rows) = (n, \<lparr>path = p, rename = f\<rparr>) # valid_mappings rows"
      by blast
    then show ?thesis using True Cons.IH by (simp add: valid_iff_missing)
  next
    case False
    then show ?thesis using Cons.IH
      by (simp add: valid_iff_missing valid_mappings_Cons_invalid)
  qed
qed

lemma read_mappings_self:
  "fst (snd (fold read_mapping rows (td, self, lg))) =
     self\<lparr>total_rows_processed := total_rows_processed self + length (valid_mappings rows)\<rparr>"
proof (induction rows arbitrary: td self lg)
  case Nil
  show ?case by (simp add: valid_mappings_Nil)
next
  case (Cons row rows)
  show ?case
  proof (cases "missing_columns row = []")
    case True
    from valid_mappings_Cons_valid [OF True, of rows] obtain n p f where
      "row ''MQTTInputName'' = Some n" "row ''JsonPath'' = Some p" "row ''FieldName'' = Some f"
      "valid_mappings (row # rows) = (n, \<lparr>path = p, rename = f\<rparr>) # valid_mappings rows"
      by blast
    then show ?thesis using True Cons.IH by (simp add: valid_iff_missing)
  next
    case False
    then show ?thesis using Cons.IH
      by (simp add: valid_iff_missing valid_mappings_Cons_invalid)
  qed
qed

lemma read_mappings_skipped:
  "skipped_rows (snd (snd (fold read_mapping rows (td, self, lg)))) =
     skipped_rows lg @ map (\<lambda>row. (missing_columns row, row))
                          (filter (\<lambda>row. missing_columns row \<noteq> []) rows)"
proof (induction rows arbitrary: td self lg)
  case Nil
  show ?case by simp
next
  case (Cons row rows)
  show ?case
  proof (cases "missing_columns row = []")
    case True
    from valid_mappings_Cons_valid [OF True, of rows] obtain n p f where
      "row ''MQTTInputName'' = Some n" "row ''JsonPath'' = Some p" "row ''FieldName'' = Some f"
      by blast
    then show ?thesis using True Cons.IH by (simp add: valid_iff_missing)
  next
    case False
    then show ?thesis using Cons.IH
      by (simp add: valid_iff_missing missing_columns_eq skipped_rows_def)
  qed
qed

lemma valid_mappings_filter:
  "valid_mappings (filter (\<lambda>row. missing_columns row = []) rows) = valid_mappings rows"
proof (induction rows)
  case Nil
  show ?case by simp
next
  case (Cons row rows)
  show ?case
  proof (cases "missing_columns row = []")
    case True
    from valid_mappings_Cons_valid [OF True, of rows] obtain kv where
      a: "valid_mappings (row # rows) = kv # valid_mappings rows" by blast
    from valid_mappings_Cons_valid [OF True, of "filter (\<lambda>row. missing_columns row = []) rows"]
      a have
      "valid_mappings (row # filter (\<lambda>row. missing_columns row = []) rows) =
         kv # valid_mappings (filter (\<lambda>row. missing_columns row = []) rows)" 
      by (simp add: valid_mappings_def List.map_filter_simps split: option.splits if_splits)
    then show ?thesis using True Cons a by simp
  next
    case False
    then show ?thesis using Cons by (simp add: valid_mappings_Cons_invalid)
  qed
qed

subsection \<open>Grouping\<close>

lemma first_seen_snoc:
  "first_seen (xs @ [x]) = (if x \<in> set xs then first_seen xs else first_seen xs @ [x])"
  by (simp add: first_seen_def)

lemma set_first_seen: "set (first_seen xs) = set xs"
  by (simp add: first_seen_def)

lemma distinct_first_seen: "distinct (first_seen xs)"
  by (simp add: first_seen_def)

lemma append_to_map:
  "distinct ks \<Longrightarrow>
   append_to (map (\<lambda>k'. (k', g k')) ks) k v =
     (if k \<in> set ks then map (\<lambda>k'. (k', if k' = k then g k' @ [v] else g k')) ks
      else map (\<lambda>k'. (k', g k')) ks @ [(k, [v])])"
  by (induction ks) auto

lemma grouped_Nil: "grouped [] = []"
  by (simp add: grouped_def first_seen_def)

lemma grouped_snoc: "grouped (kvs @ [(k, v)]) = append_to (grouped kvs) k v"
proof -
  let ?g = "\<lambda>k'. map snd (filter (\<lambda>kv. fst kv = k') kvs)"
  let ?ks = "first_seen (map fst kvs)"
  have app: "append_to (grouped kvs) k v =
      (if k \<in> set (map fst kvs)
       then map (\<lambda>k'. (k', if k' = k then ?g k' @ [v] else ?g k')) ?ks
       else map (\<lambda>k'. (k', ?g k')) ?ks @ [(k, [v])])"
    unfolding grouped_def
    using append_to_map [OF distinct_first_seen, of ?g "map fst kvs" k v]
    by (simp only: set_first_seen)
  have new: "map snd (filter (\<lambda>kv. fst kv = k') (kvs @ [(k, v)])) =
             (if k' = k then ?g k' @ [v] else ?g k')" for k'
    by auto
  show ?thesis
  proof (cases "k \<in> set (map fst kvs)")
    case True
    then have "grouped (kvs @ [(k, v)]) =
        map (\<lambda>k'. (k', if k' = k then ?g k' @ [v] else ?g k')) ?ks"
      unfolding grouped_def by (simp only: new map_append list.map fst_conv first_seen_snoc if_True)
    then show ?thesis using True app by simp
  next
    case False
    then have empty: "?g k = []"
      by (auto simp: filter_empty_conv)
    from False have old: "map (\<lambda>k'. (k', if k' = k then ?g k' @ [v] else ?g k')) ?ks
        = map (\<lambda>k'. (k', ?g k')) ?ks"
      by (intro map_cong refl) (auto simp: set_first_seen)
    from False have "grouped (kvs @ [(k, v)]) =
        map (\<lambda>k'. (k', if k' = k then ?g k' @ [v] else ?g k')) (?ks @ [k])"
      unfolding grouped_def by (simp only: new map_append list.map fst_conv first_seen_snoc if_False)
    then show ?thesis using False app old empty by simp
  qed
qed

lemma fold_append_to:
  "fold (\<lambda>kv acc. append_to acc (fst kv) (snd kv)) kvs [] = grouped kvs"
proof (induction kvs rule: rev_induct)
  case Nil
  show ?case by (simp add: grouped_Nil)
next
  case (snoc kv kvs)
  then show ?case by (cases kv) (simp add: grouped_snoc)
qed

lemma document_consumers_append:
  "document_consumers (xs @ ys) = document_consumers xs @ document_consumers ys"
  by (simp add: document_consumers_def)

lemma document_consumers_topic_comments:
  "document_consumers (concat (map (\<lambda>item. [Nl, Comment (f item)]) td)) = []"
  by (induction td) (simp_all add: document_consumers_def)

lemma document2_consumers:
  "document_consumers (document2 self ts td) = map (mqtt_consumer2 (mqtt_broker self)) td"
  unfolding document2_def document_consumers_append document_consumers_topic_comments
  by (simp add: document_consumers_def outputs_table_def agent_table_def)

lemma document2_topics:
  "document_topics (document2 self ts td) = map fst td"
  unfolding document_topics_def document2_consumers
  by (induction td) (auto simp: consumer_topics_def mqtt_consumer2_def)

subsection \<open>The generators as functions of their input\<close>

lemma document1_counters:
  "document1 (self\<lparr>total_nodes_processed := a, topics_sanitized := b\<rparr>) ts nodes = document1 self ts nodes"
  by (simp add: document1_def)

lemma document2_counters:
  "document2 (self\<lparr>total_rows_processed := a, total_topics_configured := b\<rparr>) ts td = document2 self ts td"
  by (simp add: document2_def)

lemma skipped_rows_append: "skipped_rows (xs @ ys) = skipped_rows xs @ skipped_rows ys"
  by (simp add: skipped_rows_def)

lemma generate1_written:
  "written (generate_telegraf_config1 self e) =
     (if csv_exists e \<and> csv_end e = None \<and> write_ok e \<and> input_names (csv_rows e) \<noteq> []
      then Some (document1 self (now e)
                  (map (\<lambda>n. \<lparr>mqtt_input_name = n, mqtt_topic = derive_topic n\<rparr>) (input_names (csv_rows e))))
      else None)"
  using read_nodes_fst [of "csv_rows e" "[]" self "[InfoReading (csv_file_path self)]"]
        read_nodes_self [of "csv_rows e" "[]" self "[InfoReading (csv_file_path self)]"]
  by (simp add: generate_telegraf_config1_def case_prod_beta write_config_def document1_counters
      split: option.split)

lemma generate1_gen:
  "gen (generate_telegraf_config1 self e) =
     (if csv_exists e
      then self\<lparr>total_nodes_processed := total_nodes_processed self + length (input_names (csv_rows e)),
          topics_sanitized := topics_sanitized self
            + length (filter (\<lambda>n. \<not> validate_mqtt_topic (''telegraf/opcua/'' @ n)) (input_names (csv_rows e)))\<rparr>
      else self)"
  using read_nodes_self [of "csv_rows e" "[]" self "[InfoReading (csv_file_path self)]"]
  by (simp add: generate_telegraf_config1_def case_prod_beta split: option.split)

lemma generate2_written:
  "written (generate_telegraf_config2 self e) =
     (if csv_exists e \<and> csv_end e = None \<and> write_ok e
      then Some (document2 self (now e) (grouped (valid_mappings (csv_rows e))))
      else None)"
  using read_mappings_fst [of "csv_rows e" "[]" self "[InfoReading (csv_file_path self)]"]
        read_mappings_self [of "csv_rows e" "[]" self "[InfoReading (csv_file_path self)]"]
  by (simp add: generate_telegraf_config2_def case_prod_beta write_config_def document2_counters
      fold_append_to Let_def split: option.split)

lemma generate2_gen:
  "gen (generate_telegraf_config2 self e) =
     (if csv_exists e
      then (if csv_end e = None
            then self\<lparr>total_rows_processed := total_rows_processed self + length (valid_mappings (csv_rows e)),
                      total_topics_configured := length (grouped (valid_mappings (csv_rows e)))\<rparr>
            else self\<lparr>total_rows_processed := total_rows_processed self + length (valid_mappings (csv_rows e))\<rparr>)
      else self)"
  using read_mappings_fst [of "csv_rows e" "[]" self "[InfoReading (csv_file_path self)]"]
        read_mappings_self [of "csv_rows e" "[]" self "[InfoReading (csv_file_path self)]"]
  by (simp add: generate_telegraf_config2_def case_prod_beta write_config_def
      fold_append_to Let_def split: option.split)

lemma generate2_skipped:
  "csv_exists e \<Longrightarrow> skipped_rows (logged (generate_telegraf_config2 self e)) =
     map (\<lambda>row. (missing_columns row, row)) (filter (\<lambda>row. missing_columns row \<noteq> []) (csv_rows e))"
  using read_mappings_skipped [of "csv_rows e" "[]" self "[InfoReading (csv_file_path self)]"]
  by (simp add: generate_telegraf_config2_def case_prod_beta write_config_def
      skipped_rows_append Let_def split: option.split)
     (simp add: skipped_rows_def)

lemma generate1_now:
  "logged (generate_telegraf_config1 self (e\<lparr>now := t\<rparr>)) = logged (generate_telegraf_config1 self e)"
  by (simp add: generate_telegraf_config1_def case_prod_beta write_config_def split: option.split)

lemma generate2_now:
  "logged (generate_telegraf_config2 self (e\<lparr>now := t\<rparr>)) = logged (generate_telegraf_config2 self e)"
  by (simp add: generate_telegraf_config2_def case_prod_beta write_config_def Let_def split: option.split)

lemma generate1_last_log:
  "csv_exists e \<Longrightarrow> csv_end e = None \<Longrightarrow> input_names (csv_rows e) = [] \<Longrightarrow>
   last (logged (generate_telegraf_config1 self e)) = WarningNoValidInputs"
  using read_nodes_fst [of "csv_rows e" "[]" self "[InfoReading (csv_file_path self)]"]
  by (simp add: generate_telegraf_config1_def case_prod_beta)

lemma no_name_rows:
  "list_all (\<lambda>row. row ''MQTTInputName'' = None) rows \<Longrightarrow>
     input_names rows = [] \<and> valid_mappings rows = []"
  by (induction rows)
     (simp_all add: input_names_Nil input_names_Cons valid_mappings_Nil valid_mappings_Cons_invalid
       missing_columns_def)

section \<open>The claims\<close>

text \<open>
  C1. The specification says that \<open>validate_mqtt_topic\<close> accepts a string that starts with
  one of the prefixes \<open>$SYS/\<close>, \<open>$share/\<close>, \<open>$noexport/\<close> and is within the byte and
  segment limits. The code tests every reserved character, \<open>$\<close> among them, by containment
  before it looks at the prefix, so it rejects such a string: the topic
  \<open>$SYS/broker/load\<close> starts with \<open>$SYS/\<close>, has 16 bytes and 3 segments, and is
  rejected.
\<close>

theorem validate_mqtt_topic_rejects_sys_prefix:
  "startswith ''$SYS/broker/load'' ''$SYS/''
   \<and> length ''$SYS/broker/load'' = 16
   \<and> length (split ''$SYS/broker/load'' (CHR ''/'')) = 3
   \<and> \<not> validate_mqtt_topic ''$SYS/broker/load''"
  by (simp add: startswith_def validate_mqtt_topic_def MQTT_TOPIC_EXCLUSION_CHARS_def)

text \<open>
  C4. \<open>sanitize_mqtt_topic\<close> is the replacement of the reserved characters by \<open>_\<close> in the
  order \<open>+ # * > $ !\<close>, followed by the fix of a leading \<open>$\<close> outside the allowed
  prefixes (\<open>sanitize_spec\<close>). The result has the length and the number of segments of its
  argument, and every character that is not reserved stays where it is.
\<close>

theorem sanitize_mqtt_topic_refines_spec:
  "sanitize_mqtt_topic t = sanitize_spec t
   \<and> length (sanitize_mqtt_topic t) = length t
   \<and> length (split (sanitize_mqtt_topic t) (CHR ''/'')) = length (split t (CHR ''/''))
   \<and> (\<forall>i < length t. t ! i \<notin> set MQTT_TOPIC_EXCLUSION_CHARS \<longrightarrow> sanitize_mqtt_topic t ! i = t ! i)"
proof (intro conjI)
  show "sanitize_mqtt_topic t = sanitize_spec t"
    unfolding sanitize_mqtt_topic_def sanitize_spec_def Let_def allowed_dollar_prefix_def
    by (simp add: MQTT_TOPIC_EXCLUSION_CHARS_def drop_Suc)
  show "length (sanitize_mqtt_topic t) = length t"
    by (simp add: sanitize_map)
  show "length (split (sanitize_mqtt_topic t) (CHR ''/'')) = length (split t (CHR ''/''))"
    unfolding length_split sanitize_map
    by (induction t) (simp_all add: MQTT_TOPIC_EXCLUSION_CHARS_def)
  show "\<forall>i < length t. t ! i \<notin> set MQTT_TOPIC_EXCLUSION_CHARS \<longrightarrow> sanitize_mqtt_topic t ! i = t ! i"
    by (simp add: sanitize_map)
qed

theorem sanitize_mqtt_topic_refines_spec_witness:
  "sanitize_mqtt_topic ''$SYS/a+b#c'' = ''_SYS/a_b_c''
   \<and> length (sanitize_mqtt_topic ''$SYS/a+b#c'') = 10
   \<and> length (split (sanitize_mqtt_topic ''$SYS/a+b#c'') (CHR ''/'')) = 2
   \<and> sanitize_mqtt_topic ''$SYS/a+b#c'' ! 1 = CHR ''S''"
  using sanitize_mqtt_topic_refines_spec [of "''$SYS/a+b#c''"]
  by (simp add: sanitize_spec_def replace_def startswith_def MQTT_TOPIC_EXCLUSION_CHARS_def)

text \<open>
  C5. \<open>sanitize_mqtt_topic\<close> is idempotent, and the replacement pass never leaves a
  leading \<open>$\<close> behind, since \<open>$\<close> is itself replaced.
\<close>

theorem sanitize_mqtt_topic_idempotent:
  "sanitize_mqtt_topic (sanitize_mqtt_topic t) = sanitize_mqtt_topic t
   \<and> \<not> startswith (fold (\<lambda>ch s. replace s ch (CHR ''_'')) MQTT_TOPIC_EXCLUSION_CHARS t) ''$''"
proof
  show "sanitize_mqtt_topic (sanitize_mqtt_topic t) = sanitize_mqtt_topic t"
    by (simp add: sanitize_map MQTT_TOPIC_EXCLUSION_CHARS_def)
  show "\<not> startswith (fold (\<lambda>ch s. replace s ch (CHR ''_'')) MQTT_TOPIC_EXCLUSION_CHARS t) ''$''"
    unfolding replace_pass_map by (rule replace_pass_no_dollar)
qed

theorem sanitize_mqtt_topic_idempotent_witness:
  "sanitize_mqtt_topic (sanitize_mqtt_topic ''$share/g/a!'') = ''_share/g/a_''"
  using sanitize_mqtt_topic_idempotent [of "''$share/g/a!''"]
  by (simp add: sanitize_map MQTT_TOPIC_EXCLUSION_CHARS_def)

text \<open>
  C6. When generator 1 writes its document, the topics of the document are, row by row,
  \<open>derive_topic\<close> of the \<open>MQTTInputName\<close> values: the candidate
  \<open>telegraf/opcua/\<close> followed by the name, kept when it validates and sanitized (without a
  second validation) when it does not; the counter of sanitized topics grows by one for
  every candidate that does not validate. For the single row with the name \<open>Tank#1\<close> the
  topic is \<open>telegraf/opcua/Tank_1\<close> and the counter is 1.
\<close>

theorem generator1_topic_derivation:
  assumes "csv_exists e" and "csv_end e = None" and "write_ok e"
    and "input_names (csv_rows e) \<noteq> []"
  shows "map_option document_topics (written (generate_telegraf_config1 self e))
           = Some (map derive_topic (input_names (csv_rows e)))
         \<and> topics_sanitized (gen (generate_telegraf_config1 self e))
           = topics_sanitized self
             + length (filter (\<lambda>n. \<not> validate_mqtt_topic (''telegraf/opcua/'' @ n))
                         (input_names (csv_rows e)))"
  using assms by (simp add: generate1_written generate1_gen document1_topics comp_def)

theorem generator1_topic_derivation_witness:
  "csv_exists (example_env [tank_row]) \<and> csv_end (example_env [tank_row]) = None
   \<and> write_ok (example_env [tank_row]) \<and> input_names (csv_rows (example_env [tank_row])) \<noteq> []
   \<and> map_option document_topics
        (written (generate_telegraf_config1 example_generator1 (example_env [tank_row])))
       = Some [''telegraf/opcua/Tank_1'']
   \<and> topics_sanitized (gen (generate_telegraf_config1 example_generator1 (example_env [tank_row]))) = 1"
proof -
  have h: "csv_exists (example_env [tank_row])" "csv_end (example_env [tank_row]) = None"
    "write_ok (example_env [tank_row])" "input_names (csv_rows (example_env [tank_row])) \<noteq> []"
    by (simp_all add: example_env_def tank_row_def input_names_def List.map_filter_simps)
  have v: "\<not> validate_mqtt_topic ''telegraf/opcua/Tank#1''"
    by (simp add: validate_mqtt_topic_def MQTT_TOPIC_EXCLUSION_CHARS_def)
  have s: "sanitize_mqtt_topic ''telegraf/opcua/Tank#1'' = ''telegraf/opcua/Tank_1''"
    by (simp add: sanitize_map MQTT_TOPIC_EXCLUSION_CHARS_def)
  have n: "input_names (csv_rows (example_env [tank_row])) = [''Tank#1'']"
    by (simp add: example_env_def tank_row_def input_names_def List.map_filter_simps)
  from generator1_topic_derivation [OF h, of example_generator1] h v s n show ?thesis
    by (simp add: derive_topic_def example_generator1_def)
qed

text \<open>
  C7. When generator 2 writes its document, the \<open>mqtt_consumer\<close> sub-blocks are those of
  the groups of the valid rows: one sub-block per \<open>MQTTInputName\<close> value, the values in
  the order of their first occurrence. The sub-block of a value holds the broker, the value
  as its only topic and as its tag, and under \<open>json_v2\<close> one \<open>field\<close> entry per row of
  the value, in row order, with the row's \<open>JsonPath\<close> as path and its \<open>FieldName\<close> as
  rename. No topic occurs in two sub-blocks. The two rows of \<open>Line1\<close> give one sub-block
  with the mappings \<open>temp_c\<close> and \<open>temp_h\<close> in this order.
\<close>

theorem generator2_groups_by_input_name:
  assumes "csv_exists e" and "csv_end e = None" and "write_ok e"
  shows "map_option document_consumers (written (generate_telegraf_config2 self e))
           = Some (map (\<lambda>group. TTable
               [(''servers'', TArray [TString (mqtt_broker self)]),
                (''topics'', TArray [TString (fst group)]),
                (''data_format'', TString ''json_v2''),
                (''json_v2'', TArray [TTable
                   [(''measurement_name'', TString ''mqtt''),
                    (''field'', TAoT (map (\<lambda>fm. TTable
                       [(''path'', TString (path fm)),
                        (''rename'', TString (rename fm)),
                        (''type'', TString ''float'')]) (snd group)))]]),
                (''tags'', TTable [(''MQTTInputName'', TString (fst group))])])
              (map (\<lambda>k. (k, map snd (filter (\<lambda>kv. fst kv = k) (valid_mappings (csv_rows e)))))
                 (first_seen (map fst (valid_mappings (csv_rows e))))))
         \<and> map_option document_consumers (written (generate_telegraf_config2 self e))
           = Some (map (mqtt_consumer2 (mqtt_broker self)) (grouped (valid_mappings (csv_rows e))))
         \<and> map_option document_topics (written (generate_telegraf_config2 self e))
           = Some (first_seen (map fst (valid_mappings (csv_rows e))))
         \<and> distinct (first_seen (map fst (valid_mappings (csv_rows e))))"
proof (intro conjI)
  have w: "written (generate_telegraf_config2 self e)
      = Some (document2 self (now e) (grouped (valid_mappings (csv_rows e))))"
    using assms by (simp add: generate2_written)
  show "map_option document_consumers (written (generate_telegraf_config2 self e))
      = Some (map (mqtt_consumer2 (mqtt_broker self)) (grouped (valid_mappings (csv_rows e))))"
    by (simp add: w document2_consumers)
  then show "map_option document_consumers (written (generate_telegraf_config2 self e))
           = Some (map (\<lambda>group. TTable
               [(''servers'', TArray [TString (mqtt_broker self)]),
                (''topics'', TArray [TString (fst group)]),
                (''data_format'', TString ''json_v2''),
                (''json_v2'', TArray [TTable
                   [(''measurement_name'', TString ''mqtt''),
                    (''field'', TAoT (map (\<lambda>fm. TTable
                       [(''path'', TString (path fm)),
                        (''rename'', TString (rename fm)),
                        (''type'', TString ''float'')]) (snd group)))]]),
                (''tags'', TTable [(''MQTTInputName'', TString (fst group))])])
              (map (\<lambda>k. (k, map snd (filter (\<lambda>kv. fst kv = k) (valid_mappings (csv_rows e)))))
                 (first_seen (map fst (valid_mappings (csv_rows e))))))"
    by (simp add: grouped_def mqtt_consumer2_def comp_def)
  show "map_option document_topics (written (generate_telegraf_config2 self e))
      = Some (first_seen (map fst (valid_mappings (csv_rows e))))"
    by (simp add: w document2_topics grouped_def comp_def)
  show "distinct (first_seen (map fst (valid_mappings (csv_rows e))))"
    by (rule distinct_first_seen)
qed

theorem generator2_groups_by_input_name_witness:
  "csv_exists (example_env line1_rows) \<and> csv_end (example_env line1_rows) = None
   \<and> write_ok (example_env line1_rows)
   \<and> map_option document_consumers
        (written (generate_telegraf_config2 example_generator2 (example_env line1_rows)))
       = Some [TTable
               [(''servers'', TArray [TString ''tcp://mosquitto:1883'']),
                (''topics'', TArray [TString ''Line1'']),
                (''data_format'', TString ''json_v2''),
                (''json_v2'', TArray [TTable
                   [(''measurement_name'', TString ''mqtt''),
                    (''field'', TAoT
                       [TTable [(''path'', TString ''cooler.temperature''),
                                (''rename'', TString ''temp_c''),
                                (''type'', TString ''float'')],
                        TTable [(''path'', TString ''heater.temperature''),
                                (''rename'', TString ''temp_h''),
                                (''type'', TString ''float'')]])]]),
                (''tags'', TTable [(''MQTTInputName'', TString ''Line1'')])]]
   \<and> map_option document_topics
        (written (generate_telegraf_config2 example_generator2 (example_env line1_rows)))
       = Some [''Line1'']"
proof -
  have h: "csv_exists (example_env line1_rows)" "csv_end (example_env line1_rows) = None"
    "write_ok (example_env line1_rows)"
    by (simp_all add: example_env_def)
  have m: "valid_mappings (csv_rows (example_env line1_rows)) =
      [(''Line1'', \<lparr>path = ''cooler.temperature'', rename = ''temp_c''\<rparr>),
       (''Line1'', \<lparr>path = ''heater.temperature'', rename = ''temp_h''\<rparr>)]"
    by (simp add: example_env_def line1_rows_def valid_mappings_def List.map_filter_simps)
  note T = generator2_groups_by_input_name [OF h, of example_generator2]
  have b: "mqtt_broker example_generator2 = ''tcp://mosquitto:1883''"
    by (simp add: example_generator2_def)
  from T [THEN conjunct1] have c: "map_option document_consumers
        (written (generate_telegraf_config2 example_generator2 (example_env line1_rows)))
       = Some [TTable
               [(''servers'', TArray [TString ''tcp://mosquitto:1883'']),
                (''topics'', TArray [TString ''Line1'']),
                (''data_format'', TString ''json_v2''),
                (''json_v2'', TArray [TTable
                   [(''measurement_name'', TString ''mqtt''),
                    (''field'', TAoT
                       [TTable [(''path'', TString ''cooler.temperature''),
                                (''rename'', TString ''temp_c''),
                                (''type'', TString ''float'')],
                        TTable [(''path'', TString ''heater.temperature''),
                                (''rename'', TString ''temp_h''),
                                (''type'', TString ''float'')]])]]),
                (''tags'', TTable [(''MQTTInputName'', TString ''Line1'')])]]"
    unfolding m b by (simp add: first_seen_def)
  from T have t: "map_option document_topics
        (written (generate_telegraf_config2 example_generator2 (example_env line1_rows)))
       = Some [''Line1'']"
    unfolding m by (simp add: first_seen_def)
  from h c t show ?thesis by blast
qed

text \<open>
  C8. In generator 2 the rows the log reports as skipped are exactly the rows with a
  missing or empty required column, in row order, each with exactly the columns it lacks
  or leaves empty; such rows change neither the document nor the counters: both are those
  of the run on the remaining rows alone. A row without \<open>FieldName\<close> is reported with
  \<open>[FieldName]\<close> and the rows after it are grouped as without it.
\<close>

theorem generator2_skips_incomplete_rows:
  assumes "csv_exists e"
  shows "skipped_rows (logged (generate_telegraf_config2 self e))
           = map (\<lambda>row. (missing_columns row, row))
               (filter (\<lambda>row. missing_columns row \<noteq> []) (csv_rows e))
         \<and> written (generate_telegraf_config2 self e)
           = written (generate_telegraf_config2 self
               (e\<lparr>csv_rows := filter (\<lambda>row. missing_columns row = []) (csv_rows e)\<rparr>))
         \<and> gen (generate_telegraf_config2 self e)
           = gen (generate_telegraf_config2 self
               (e\<lparr>csv_rows := filter (\<lambda>row. missing_columns row = []) (csv_rows e)\<rparr>))"
  using assms
  by (simp add: generate2_skipped generate2_written generate2_gen valid_mappings_filter)

theorem generator2_skips_incomplete_rows_witness:
  "csv_exists (example_env (no_field_name_row # line1_rows))
   \<and> skipped_rows (logged (generate_telegraf_config2 example_generator2
         (example_env (no_field_name_row # line1_rows))))
       = [([''FieldName''], no_field_name_row)]
   \<and> written (generate_telegraf_config2 example_generator2
         (example_env (no_field_name_row # line1_rows)))
       = written (generate_telegraf_config2 example_generator2 (example_env line1_rows))"
proof -
  have h: "csv_exists (example_env (no_field_name_row # line1_rows))"
    by (simp add: example_env_def)
  have a: "missing_columns no_field_name_row = [''FieldName'']"
    by (simp add: missing_columns_def no_field_name_row_def)
  have b: "filter (\<lambda>row. missing_columns row = []) line1_rows = line1_rows"
    by (simp add: missing_columns_def line1_rows_def)
  have c: "filter (\<lambda>row. missing_columns row \<noteq> []) line1_rows = []"
    by (simp add: missing_columns_def line1_rows_def)
  from generator2_skips_incomplete_rows [OF h, of example_generator2] h show ?thesis
    by (simp add: example_env_def a b c)
qed

text \<open>
  C9. Both constructors raise \<open>ValueError\<close> when the CSV path or the output path is
  empty. With both paths non-empty they succeed and store the two paths; each of the broker
  address and the database URL is stored as supplied, and when it is not supplied the
  default \<open>tcp://mosquitto:1883\<close>, respectively \<open>http://influxdb:8086\<close>, is stored in its
  place, whether or not the other one is supplied. The counters start at 0.
\<close>

theorem generators_init:
  "(csv_path = [] \<or> output_path = [] \<longrightarrow>
      (\<exists>msg. TelegrafMQTTConfigGenerator_init csv_path output_path broker url = Inl (ValueError msg))
      \<and> (\<exists>msg. TelegrafMqttJsonConfigGenerator_init csv_path output_path broker url = Inl (ValueError msg)))
   \<and> (csv_path \<noteq> [] \<and> output_path \<noteq> [] \<longrightarrow>
      TelegrafMQTTConfigGenerator_init csv_path output_path None None =
        Inr \<lparr>csv_file_path = csv_path, output_file_path = output_path,
             mqtt_broker = ''tcp://mosquitto:1883'', influxdb_url = ''http://influxdb:8086'',
             total_nodes_processed = 0, topics_sanitized = 0\<rparr>
      \<and> TelegrafMqttJsonConfigGenerator_init csv_path output_path None None =
        Inr \<lparr>csv_file_path = csv_path, output_file_path = output_path,
             mqtt_broker = ''tcp://mosquitto:1883'', influxdb_url = ''http://influxdb:8086'',
             total_rows_processed = 0, total_topics_configured = 0\<rparr>
      \<and> TelegrafMQTTConfigGenerator_init csv_path output_path None (Some u) =
        Inr \<lparr>csv_file_path = csv_path, output_file_path = output_path,
             mqtt_broker = ''tcp://mosquitto:1883'', influxdb_url = u,
             total_nodes_processed = 0, topics_sanitized = 0\<rparr>
      \<and> TelegrafMqttJsonConfigGenerator_init csv_path output_path None (Some u) =
        Inr \<lparr>csv_file_path = csv_path, output_file_path = output_path,
             mqtt_broker = ''tcp://mosquitto:1883'', influxdb_url = u,
             total_rows_processed = 0, total_topics_configured = 0\<rparr>
      \<and> TelegrafMQTTConfigGenerator_init csv_path output_path (Some b) None =
        Inr \<lparr>csv_file_path = csv_path, output_file_path = output_path,
             mqtt_broker = b, influxdb_url = ''http://influxdb:8086'',
             total_nodes_processed = 0, topics_sanitized = 0\<rparr>
      \<and> TelegrafMqttJsonConfigGenerator_init csv_path output_path (Some b) None =
        Inr \<lparr>csv_file_path = csv_path, output_file_path = output_path,
             mqtt_broker = b, influxdb_url = ''http://influxdb:8086'',
             total_rows_processed = 0, total_topics_configured = 0\<rparr>
      \<and> TelegrafMQTTConfigGenerator_init csv_path output_path (Some b) (Some u) =
        Inr \<lparr>csv_file_path = csv_path, output_file_path = output_path,
             mqtt_broker = b, influxdb_url = u,
             total_nodes_processed = 0, topics_sanitized = 0\<rparr>
      \<and> TelegrafMqttJsonConfigGenerator_init csv_path output_path (Some b) (Some u) =
        Inr \<lparr>csv_file_path = csv_path, output_file_path = output_path,
             mqtt_broker = b, influxdb_url = u,
             total_rows_processed = 0, total_topics_configured = 0\<rparr>
      \<and> (\<exists>g. TelegrafMQTTConfigGenerator_init csv_path output_path broker url = Inr g)
      \<and> (\<exists>g. TelegrafMqttJsonConfigGenerator_init csv_path output_path broker url = Inr g))"
  by (simp add: TelegrafMQTTConfigGenerator_init_def TelegrafMqttJsonConfigGenerator_init_def)

theorem generators_init_witness:
  "(\<exists>msg. TelegrafMQTTConfigGenerator_init [] ''telegraf.conf'' None None = Inl (ValueError msg))
   \<and> (\<exists>msg. TelegrafMqttJsonConfigGenerator_init ''nodes.csv'' [] None None = Inl (ValueError msg))
   \<and> TelegrafMQTTConfigGenerator_init ''nodes.csv'' ''telegraf.conf'' None None
       = Inr example_generator1
   \<and> TelegrafMqttJsonConfigGenerator_init ''mappings.csv'' ''telegraf.conf'' None None
       = Inr example_generator2
   \<and> TelegrafMQTTConfigGenerator_init ''nodes.csv'' ''telegraf.conf'' (Some ''tcp://broker:1883'') None
       = Inr (example_generator1\<lparr>mqtt_broker := ''tcp://broker:1883''\<rparr>)
   \<and> TelegrafMqttJsonConfigGenerator_init ''mappings.csv'' ''telegraf.conf'' None (Some ''http://db:8086'')
       = Inr (example_generator2\<lparr>influxdb_url := ''http://db:8086''\<rparr>)"
  using generators_init [of "[]" "''telegraf.conf''" None None]
        generators_init [of "''nodes.csv''" "[]" None None]
        generators_init [where csv_path = "''nodes.csv''" and output_path = "''telegraf.conf''"
          and broker = None and url = None and b = "''tcp://broker:1883''"]
        generators_init [where csv_path = "''mappings.csv''" and output_path = "''telegraf.conf''"
          and broker = None and url = None and u = "''http://db:8086''"]
  by (simp add: example_generator1_def example_generator2_def)

text \<open>
  C10. When no row has the column \<open>MQTTInputName\<close>, generator 1 writes nothing, and when
  the file was read to its end its last log entry is the warning that no valid input was
  found. Generator 2 has no such guard: in the same run, when the output can be written, it
  writes a document whose \<open>inputs\<close> section holds an empty \<open>mqtt_consumer\<close> list.
\<close>

theorem no_valid_records:
  assumes "list_all (\<lambda>row. row ''MQTTInputName'' = None) (csv_rows e)"
  shows "written (generate_telegraf_config1 self1 e) = None
         \<and> (csv_exists e \<and> csv_end e = None \<longrightarrow>
              last (logged (generate_telegraf_config1 self1 e)) = WarningNoValidInputs)
         \<and> (csv_exists e \<and> csv_end e = None \<and> write_ok e \<longrightarrow>
              written (generate_telegraf_config2 self2 e) = Some (document2 self2 (now e) [])
              \<and> Section ''inputs'' (TTable [(''mqtt_consumer'', TAoT [])])
                  \<in> set (document2 self2 (now e) [])
              \<and> document_consumers (document2 self2 (now e) []) = [])"
  using no_name_rows [OF assms]
  by (simp add: generate1_written generate1_last_log generate2_written grouped_Nil
      document2_consumers)
     (simp add: document2_def)

theorem no_valid_records_witness:
  "list_all (\<lambda>row. row ''MQTTInputName'' = None) (csv_rows (example_env [other_column_row]))
   \<and> written (generate_telegraf_config1 example_generator1 (example_env [other_column_row])) = None
   \<and> last (logged (generate_telegraf_config1 example_generator1 (example_env [other_column_row])))
       = WarningNoValidInputs
   \<and> map_option document_consumers
       (written (generate_telegraf_config2 example_generator2 (example_env [other_column_row])))
       = Some []"
proof -
  have h: "list_all (\<lambda>row. row ''MQTTInputName'' = None) (csv_rows (example_env [other_column_row]))"
    by (simp add: example_env_def other_column_row_def)
  have e: "csv_exists (example_env [other_column_row])"
    "csv_end (example_env [other_column_row]) = None" "write_ok (example_env [other_column_row])"
    by (simp_all add: example_env_def)
  from no_valid_records [OF h, of example_generator1 example_generator2] h e show ?thesis
    by simp
qed

text \<open>
  C2, as stated, fails. Generator 1 uses the sanitized topic without validating it again,
  and sanitization repairs neither the byte limit nor the segment limit: with a name of 240
  letters the topic of the document has 255 bytes and does not validate, and with a name of
  126 slashes the topic has 141 bytes but 129 segments and does not validate either.
  Generator 2 never validates: the name \<open>plant+1\<close> is the topic of its document.
\<close>

theorem generated_topics_not_all_legal:
  "map_option document_topics
      (written (generate_telegraf_config1 example_generator1 (example_env [long_row])))
     = Some [''telegraf/opcua/'' @ replicate 240 (CHR ''a'')]
   \<and> \<not> validate_mqtt_topic (''telegraf/opcua/'' @ replicate 240 (CHR ''a''))
   \<and> map_option document_topics
      (written (generate_telegraf_config2 example_generator2 (example_env [plus_row])))
     = Some [''plant+1'']
   \<and> \<not> validate_mqtt_topic ''plant+1''
   \<and> map_option document_topics
      (written (generate_telegraf_config1 example_generator1 (example_env [deep_row])))
     = Some [''telegraf/opcua/'' @ replicate 126 (CHR ''/'')]
   \<and> length (''telegraf/opcua/'' @ replicate 126 (CHR ''/'')) = 141
   \<and> length (split (''telegraf/opcua/'' @ replicate 126 (CHR ''/'')) (CHR ''/'')) = 129
   \<and> \<not> validate_mqtt_topic (''telegraf/opcua/'' @ replicate 126 (CHR ''/''))"
proof -
  have n: "input_names [long_row] = [replicate 240 (CHR ''a'')]"
    by (simp add: long_row_def input_names_def List.map_filter_simps)
  have v: "\<not> validate_mqtt_topic (''telegraf/opcua/'' @ replicate 240 (CHR ''a''))"
    by (simp add: validate_iff)
  have s: "sanitize_mqtt_topic (''telegraf/opcua/'' @ replicate 240 (CHR ''a''))
      = ''telegraf/opcua/'' @ replicate 240 (CHR ''a'')"
    by (simp add: sanitize_map MQTT_TOPIC_EXCLUSION_CHARS_def)
  have m: "valid_mappings [plus_row] = [(''plant+1'', \<lparr>path = ''Volume'', rename = ''volume''\<rparr>)]"
    by (simp add: plus_row_def valid_mappings_def List.map_filter_simps)
  have p: "\<not> validate_mqtt_topic ''plant+1''"
    by (simp add: validate_mqtt_topic_def MQTT_TOPIC_EXCLUSION_CHARS_def)
  have g1: "map_option document_topics
      (written (generate_telegraf_config1 example_generator1 (example_env [long_row])))
     = Some [''telegraf/opcua/'' @ replicate 240 (CHR ''a'')]"
    using v s by (simp add: generate1_written document1_topics example_env_def n derive_topic_def)
  have g2: "map_option document_topics
      (written (generate_telegraf_config2 example_generator2 (example_env [plus_row])))
     = Some [''plant+1'']"
    by (simp add: generate2_written document2_topics example_env_def m grouped_def first_seen_def)
  have dn: "input_names [deep_row] = [replicate 126 (CHR ''/'')]"
    by (simp add: deep_row_def input_names_def List.map_filter_simps)
  have dl: "length (''telegraf/opcua/'' @ replicate 126 (CHR ''/'')) = 141"
    by simp
  have ds: "length (split (''telegraf/opcua/'' @ replicate 126 (CHR ''/'')) (CHR ''/'')) = 129"
    by (simp add: length_split)
  have dv: "\<not> validate_mqtt_topic (''telegraf/opcua/'' @ replicate 126 (CHR ''/''))"
    using ds by (simp add: validate_iff)
  have dz: "sanitize_mqtt_topic (''telegraf/opcua/'' @ replicate 126 (CHR ''/''))
      = ''telegraf/opcua/'' @ replicate 126 (CHR ''/'')"
    by (simp add: sanitize_map MQTT_TOPIC_EXCLUSION_CHARS_def)
  have g3: "map_option document_topics
      (written (generate_telegraf_config1 example_generator1 (example_env [deep_row])))
     = Some [''telegraf/opcua/'' @ replicate 126 (CHR ''/'')]"
    using dv dz by (simp add: generate1_written document1_topics example_env_def dn derive_topic_def)
  from g1 v g2 p g3 dl ds dv show ?thesis by blast
qed

text \<open>
  C2, amended. Every topic of a document written by generator 1 is free of the reserved
  characters, and therefore satisfies \<open>validate_mqtt_topic\<close> exactly when it is within
  the limits of 250 bytes and 128 segments; the topics of a document written by generator 2
  are the \<open>MQTTInputName\<close> values of the rows that pass its required-field check, as they
  are, in first-seen order; and in both generators the rows that fail the required-field
  check contribute nothing: the document is the one written for the remaining rows alone.
\<close>

theorem generated_topics_amended:
  "(\<forall>doc. written (generate_telegraf_config1 self1 e) = Some doc \<longrightarrow>
      list_all (\<lambda>t. list_all (\<lambda>ch. ch \<notin> set t) MQTT_TOPIC_EXCLUSION_CHARS
                  \<and> (validate_mqtt_topic t
                       \<longleftrightarrow> length t \<le> 250 \<and> length (split t (CHR ''/'')) \<le> 128))
        (document_topics doc))
   \<and> (\<forall>doc. written (generate_telegraf_config2 self2 e) = Some doc \<longrightarrow>
      document_topics doc = first_seen (map fst (valid_mappings (csv_rows e))))
   \<and> written (generate_telegraf_config1 self1 e)
       = written (generate_telegraf_config1 self1
           (e\<lparr>csv_rows := filter (\<lambda>row. row ''MQTTInputName'' \<noteq> None) (csv_rows e)\<rparr>))
   \<and> written (generate_telegraf_config2 self2 e)
       = written (generate_telegraf_config2 self2
           (e\<lparr>csv_rows := filter (\<lambda>row. missing_columns row = []) (csv_rows e)\<rparr>))"
proof (intro conjI allI impI)
  fix doc
  assume "written (generate_telegraf_config1 self1 e) = Some doc"
  then have "document_topics doc = map derive_topic (input_names (csv_rows e))"
    by (auto simp: generate1_written document1_topics comp_def split: if_splits)
  moreover have "list_all (\<lambda>ch. ch \<notin> set (derive_topic n)) MQTT_TOPIC_EXCLUSION_CHARS" for n
    using derive_topic_clean [of _ n] by (simp add: list_all_iff)
  moreover have "validate_mqtt_topic (derive_topic n)
      \<longleftrightarrow> length (derive_topic n) \<le> 250 \<and> length (split (derive_topic n) (CHR ''/'')) \<le> 128" for n
    using derive_topic_clean [of _ n] by (auto simp: validate_iff)
  ultimately show "list_all (\<lambda>t. list_all (\<lambda>ch. ch \<notin> set t) MQTT_TOPIC_EXCLUSION_CHARS
       \<and> (validate_mqtt_topic t \<longleftrightarrow> length t \<le> 250 \<and> length (split t (CHR ''/'')) \<le> 128))
      (document_topics doc)"
    by (simp add: list_all_iff)
next
  fix doc
  assume "written (generate_telegraf_config2 self2 e) = Some doc"
  then show "document_topics doc = first_seen (map fst (valid_mappings (csv_rows e)))"
    by (auto simp: generate2_written document2_topics grouped_def comp_def split: if_splits)
next
  show "written (generate_telegraf_config1 self1 e)
       = written (generate_telegraf_config1 self1
           (e\<lparr>csv_rows := filter (\<lambda>row. row ''MQTTInputName'' \<noteq> None) (csv_rows e)\<rparr>))"
    by (simp add: generate1_written input_names_filter del: not_None_eq)
next
  show "written (generate_telegraf_config2 self2 e)
       = written (generate_telegraf_config2 self2
           (e\<lparr>csv_rows := filter (\<lambda>row. missing_columns row = []) (csv_rows e)\<rparr>))"
    by (simp add: generate2_written valid_mappings_filter)
qed

theorem generated_topics_amended_witness:
  "written (generate_telegraf_config1 example_generator1
       (example_env (other_column_row # no_field_name_row # line1_rows))) \<noteq> None
   \<and> written (generate_telegraf_config2 example_generator2
       (example_env (other_column_row # no_field_name_row # line1_rows))) \<noteq> None
   \<and> map_option (\<lambda>doc. list_all (\<lambda>t. list_all (\<lambda>ch. ch \<notin> set t) MQTT_TOPIC_EXCLUSION_CHARS
           \<and> (validate_mqtt_topic t
                \<longleftrightarrow> length t \<le> 250 \<and> length (split t (CHR ''/'')) \<le> 128))
         (document_topics doc))
       (written (generate_telegraf_config1 example_generator1
          (example_env (other_column_row # no_field_name_row # line1_rows)))) = Some True
   \<and> map_option document_topics
       (written (generate_telegraf_config2 example_generator2
          (example_env (other_column_row # no_field_name_row # line1_rows)))) = Some [''Line1'']
   \<and> written (generate_telegraf_config1 example_generator1
         (example_env (other_column_row # no_field_name_row # line1_rows)))
       = written (generate_telegraf_config1 example_generator1
         (example_env (no_field_name_row # line1_rows)))
   \<and> written (generate_telegraf_config2 example_generator2
         (example_env (other_column_row # no_field_name_row # line1_rows)))
       = written (generate_telegraf_config2 example_generator2 (example_env line1_rows))"
proof -
  let ?e = "example_env (other_column_row # no_field_name_row # line1_rows)"
  note T = generated_topics_amended [of example_generator1 ?e example_generator2]
  have n: "input_names (other_column_row # no_field_name_row # line1_rows) \<noteq> []"
    by (simp add: input_names_def List.map_filter_simps other_column_row_def no_field_name_row_def)
  obtain d1 where d1: "written (generate_telegraf_config1 example_generator1 ?e) = Some d1"
    using n by (simp add: generate1_written example_env_def)
  obtain d2 where d2: "written (generate_telegraf_config2 example_generator2 ?e) = Some d2"
    by (simp add: generate2_written example_env_def)
  have m: "first_seen (map fst (valid_mappings (csv_rows ?e))) = [''Line1'']"
    by (simp add: example_env_def valid_mappings_def List.map_filter_simps other_column_row_def
        no_field_name_row_def line1_rows_def first_seen_def)
  have e1: "?e\<lparr>csv_rows := filter (\<lambda>row. row ''MQTTInputName'' \<noteq> None) (csv_rows ?e)\<rparr>
      = example_env (no_field_name_row # line1_rows)"
    by (simp add: example_env_def other_column_row_def no_field_name_row_def line1_rows_def)
  have e2: "?e\<lparr>csv_rows := filter (\<lambda>row. missing_columns row = []) (csv_rows ?e)\<rparr>
      = example_env line1_rows"
    by (simp add: example_env_def missing_columns_def other_column_row_def no_field_name_row_def
        line1_rows_def)
  have c1: "list_all (\<lambda>t. list_all (\<lambda>ch. ch \<notin> set t) MQTT_TOPIC_EXCLUSION_CHARS
       \<and> (validate_mqtt_topic t \<longleftrightarrow> length t \<le> 250 \<and> length (split t (CHR ''/'')) \<le> 128))
      (document_topics d1)"
    using T d1 by blast
  have c2: "document_topics d2 = [''Line1'']"
    using T d2 m by simp
  have c3: "written (generate_telegraf_config1 example_generator1 ?e)
       = written (generate_telegraf_config1 example_generator1
         (example_env (no_field_name_row # line1_rows)))"
    using T unfolding e1 by blast
  have c4: "written (generate_telegraf_config2 example_generator2 ?e)
       = written (generate_telegraf_config2 example_generator2 (example_env line1_rows))"
    using T unfolding e2 by blast
  show ?thesis
    using c1 c2 c3 [symmetric] c4 [symmetric] by (simp add: d1 d2)
qed

text \<open>
  C3, as stated, fails: the first header comment of the document carries the clock reading of
  the run, so two runs of one generator object on the same rows, at different times, write
  different documents.
\<close>

theorem generated_document_depends_on_clock:
  "csv_rows ((example_env [tank_row])\<lparr>now := ''2025-01-01 00:00:01''\<rparr>) = csv_rows (example_env [tank_row])
   \<and> written (generate_telegraf_config1 example_generator1
        ((example_env [tank_row])\<lparr>now := ''2025-01-01 00:00:01''\<rparr>))
     \<noteq> written (generate_telegraf_config1 example_generator1 (example_env [tank_row]))
   \<and> written (generate_telegraf_config2 example_generator2
        ((example_env line1_rows)\<lparr>now := ''2025-01-01 00:00:01''\<rparr>))
     \<noteq> written (generate_telegraf_config2 example_generator2 (example_env line1_rows))"
proof -
  have n: "input_names [tank_row] \<noteq> []"
    by (simp add: tank_row_def input_names_def List.map_filter_simps)
  show ?thesis
    using n by (simp add: generate1_written generate2_written example_env_def
        document1_def document2_def)
qed

text \<open>
  C3, amended. The output of each generator is a function of the rows, the configuration
  and the clock reading of the run: two runs that differ in the clock reading alone leave
  the same generator object and the same log, and write documents that differ in their
  first item only, the header comment that carries the timestamp.
\<close>

theorem generated_document_up_to_timestamp:
  "map_option tl (written (generate_telegraf_config1 self1 (e\<lparr>now := t\<rparr>)))
     = map_option tl (written (generate_telegraf_config1 self1 e))
   \<and> gen (generate_telegraf_config1 self1 (e\<lparr>now := t\<rparr>)) = gen (generate_telegraf_config1 self1 e)
   \<and> logged (generate_telegraf_config1 self1 (e\<lparr>now := t\<rparr>))
     = logged (generate_telegraf_config1 self1 e)
   \<and> map_option tl (written (generate_telegraf_config2 self2 (e\<lparr>now := t\<rparr>)))
     = map_option tl (written (generate_telegraf_config2 self2 e))
   \<and> gen (generate_telegraf_config2 self2 (e\<lparr>now := t\<rparr>)) = gen (generate_telegraf_config2 self2 e)
   \<and> logged (generate_telegraf_config2 self2 (e\<lparr>now := t\<rparr>))
     = logged (generate_telegraf_config2 self2 e)
   \<and> (\<forall>doc. written (generate_telegraf_config1 self1 e) = Some doc \<longrightarrow>
         hd doc = Comment (''# Generated at '' @ now e))
   \<and> (\<forall>doc. written (generate_telegraf_config2 self2 e) = Some doc \<longrightarrow>
         hd doc = Comment (''Generated at '' @ now e))"
proof (intro conjI allI impI)
  show "map_option tl (written (generate_telegraf_config1 self1 (e\<lparr>now := t\<rparr>)))
     = map_option tl (written (generate_telegraf_config1 self1 e))"
    by (simp add: generate1_written document1_def)
  show "map_option tl (written (generate_telegraf_config2 self2 (e\<lparr>now := t\<rparr>)))
     = map_option tl (written (generate_telegraf_config2 self2 e))"
    by (simp add: generate2_written document2_def)
  show "gen (generate_telegraf_config1 self1 (e\<lparr>now := t\<rparr>)) = gen (generate_telegraf_config1 self1 e)"
    by (simp add: generate1_gen)
  show "gen (generate_telegraf_config2 self2 (e\<lparr>now := t\<rparr>)) = gen (generate_telegraf_config2 self2 e)"
    by (simp add: generate2_gen)
  show "logged (generate_telegraf_config1 self1 (e\<lparr>now := t\<rparr>))
     = logged (generate_telegraf_config1 self1 e)"
    by (rule generate1_now)
  show "logged (generate_telegraf_config2 self2 (e\<lparr>now := t\<rparr>))
     = logged (generate_telegraf_config2 self2 e)"
    by (rule generate2_now)
next
  fix doc
  assume "written (generate_telegraf_config1 self1 e) = Some doc"
  then show "hd doc = Comment (''# Generated at '' @ now e)"
    by (auto simp: generate1_written document1_def split: if_splits)
next
  fix doc
  assume "written (generate_telegraf_config2 self2 e) = Some doc"
  then show "hd doc = Comment (''Generated at '' @ now e)"
    by (auto simp: generate2_written document2_def split: if_splits)
qed

theorem generated_document_up_to_timestamp_witness:
  "written (generate_telegraf_config1 example_generator1 (example_env line1_rows)) \<noteq> None
   \<and> written (generate_telegraf_config2 example_generator2 (example_env line1_rows)) \<noteq> None
   \<and> map_option hd (written (generate_telegraf_config1 example_generator1 (example_env line1_rows)))
       = Some (Comment ''# Generated at 2025-01-01 00:00:00'')
   \<and> map_option hd (written (generate_telegraf_config2 example_generator2 (example_env line1_rows)))
       = Some (Comment ''Generated at 2025-01-01 00:00:00'')
   \<and> map_option tl (written (generate_telegraf_config1 example_generator1
         ((example_env line1_rows)\<lparr>now := ''2025-01-01 00:00:01''\<rparr>)))
       = map_option tl (written (generate_telegraf_config1 example_generator1 (example_env line1_rows)))
   \<and> map_option tl (written (generate_telegraf_config2 example_generator2
         ((example_env line1_rows)\<lparr>now := ''2025-01-01 00:00:01''\<rparr>)))
       = map_option tl (written (generate_telegraf_config2 example_generator2 (example_env line1_rows)))"
proof -
  let ?e = "example_env line1_rows"
  have n: "input_names line1_rows \<noteq> []"
    by (simp add: input_names_def List.map_filter_simps line1_rows_def)
  obtain d1 where d1: "written (generate_telegraf_config1 example_generator1 ?e) = Some d1"
    using n by (simp add: generate1_written example_env_def)
  obtain d2 where d2: "written (generate_telegraf_config2 example_generator2 ?e) = Some d2"
    by (simp add: generate2_written example_env_def)
  have t: "now ?e = ''2025-01-01 00:00:00''"
    by (simp add: example_env_def)
  from generated_document_up_to_timestamp
         [of example_generator1 "''2025-01-01 00:00:01''" ?e example_generator2] d1 d2 t
  show ?thesis by simp
qed

end
